theory Spec2Isabelle
  imports Main
begin

section \<open>Python dictionaries\<close>

text \<open>
  \<^verbatim>\<open>users_db\<close> and \<^verbatim>\<open>posts_db\<close> are Python dictionaries. A dictionary keeps its
  keys in insertion order, holds each key once, and an assignment \<^verbatim>\<open>d[k] = v\<close>
  to a key that is already present replaces the value where the key stands, while an
  assignment to a new key puts the entry last. The model is an association list read
  from the front, oldest entry first.
\<close>

type_synonym ('k, 'v) dict = "('k \<times> 'v) list"

definition dict_keys :: "('k, 'v) dict \<Rightarrow> 'k list" where
  "dict_keys d = map fst d"

definition dict_values :: "('k, 'v) dict \<Rightarrow> 'v list" where
  "dict_values d = map snd d"

text \<open>\<^verbatim>\<open>k in d\<close>\<close>

definition dict_in :: "'k \<Rightarrow> ('k, 'v) dict \<Rightarrow> bool" where
  "dict_in k d = (k \<in> set (dict_keys d))"

text \<open>\<^verbatim>\<open>d[k]\<close>, with \<open>None\<close> where Python raises \<^verbatim>\<open>KeyError\<close>\<close>

definition dict_get :: "('k, 'v) dict \<Rightarrow> 'k \<Rightarrow> 'v option" where
  "dict_get d k = map_of d k"

text \<open>\<^verbatim>\<open>d[k] = v\<close>\<close>

fun dict_set :: "('k, 'v) dict \<Rightarrow> 'k \<Rightarrow> 'v \<Rightarrow> ('k, 'v) dict" where
  "dict_set [] k v = [(k, v)]"
| "dict_set ((k', v') # d) k v =
     (if k' = k then (k, v) # d else (k', v') # dict_set d k v)"

section \<open>Data model\<close>

text \<open>The pydantic models \<^verbatim>\<open>User\<close>, \<^verbatim>\<open>Post\<close> and \<^verbatim>\<open>UserInDB(User)\<close>.\<close>

record User =
  username :: string
  password :: string

record Post =
  content :: string
  username :: string

record UserInDB = User +
  id' :: string

text \<open>
  \<^verbatim>\<open>datetime.now()\<close> yields a point in time; only its identity matters here, so a
  \<open>datetime\<close> is the number of microseconds it stands for.
\<close>

type_synonym datetime = int

text \<open>
  The values stored in the two dictionaries are the dictionary literals
  \<^verbatim>\<open>{"id": user_id, "password": user.password}\<close> and
  \<^verbatim>\<open>{"content": ..., "username": ..., "created_at": ...}\<close>: always the same keys,
  hence records, one field for each key.
\<close>

record user_entry =
  entry_id :: string
  entry_password :: string

record post_entry =
  entry_content :: string
  entry_username :: string
  entry_created_at :: datetime

text \<open>
  The process state: the two module-level dictionaries, and the number of calls made
  to \<^verbatim>\<open>uuid4\<close> so far. The identifier generator is outside the program; it is
  modelled as a sequence \<open>uuid4 :: nat \<Rightarrow> string\<close>, the \<open>k\<close>-th call returning
  \<open>uuid4 k\<close>. That the generator never repeats a value is the hypothesis
  \<open>inj uuid4\<close> of the theorems that need it; the operations themselves are
  defined for any sequence.
\<close>

record state =
  users_db :: "(string, user_entry) dict"
  posts_db :: "(string, post_entry) dict"
  uuid_calls :: nat

definition init_state :: state where
  "init_state = \<lparr>users_db = [], posts_db = [], uuid_calls = 0\<rparr>"

datatype HTTPException = HTTPException (status_code: nat) (detail: string)

text \<open>The values of a response dictionary built by a handler.\<close>

datatype pyval = PyStr string | PyDateTime datetime

type_synonym pydict = "(string, pyval) dict"

section \<open>Handlers\<close>

text \<open>
  A handler takes the state and returns its result together with the state it
  leaves; a raised \<^verbatim>\<open>HTTPException\<close> is the \<open>Inl\<close> result.
\<close>

definition authenticate_user :: "state \<Rightarrow> string \<Rightarrow> string \<Rightarrow> HTTPException + UserInDB" where
  "authenticate_user s username' password' =
     (case dict_get (users_db s) username' of
        Some entry \<Rightarrow>
          if entry_password entry = password'
          then Inr \<lparr>User.username = username', password = password', id' = entry_id entry\<rparr>
          else Inl (HTTPException 401 ''Invalid credentials'')
      | None \<Rightarrow> Inl (HTTPException 401 ''Invalid credentials''))"

definition register :: "(nat \<Rightarrow> string) \<Rightarrow> state \<Rightarrow> User \<Rightarrow> (HTTPException + UserInDB) \<times> state" where
  "register uuid4 s user =
     (if dict_in (User.username user) (users_db s)
      then (Inl (HTTPException 400 ''Username already exists''), s)
      else
        let user_id = uuid4 (uuid_calls s);
            s1 = s\<lparr>uuid_calls := Suc (uuid_calls s)\<rparr>;
            s2 = s1\<lparr>users_db := dict_set (users_db s1) (User.username user)
                       \<lparr>entry_id = user_id, entry_password = password user\<rparr>\<rparr>
        in (Inr \<lparr>User.username = User.username user, password = password user, id' = user_id\<rparr>, s2))"

definition login :: "state \<Rightarrow> User \<Rightarrow> (HTTPException + pydict) \<times> state" where
  "login s user =
     (case authenticate_user s (User.username user) (password user) of
        Inl e \<Rightarrow> (Inl e, s)
      | Inr _ \<Rightarrow> (Inr [(''message'', PyStr (''Welcome, '' @ User.username user @ ''!''))], s))"

text \<open>\<^verbatim>\<open>post.dict()\<close>\<close>

definition Post_dict :: "Post \<Rightarrow> pydict" where
  "Post_dict post = [(''content'', PyStr (content post)), (''username'', PyStr (Post.username post))]"

definition create_post :: "(nat \<Rightarrow> string) \<Rightarrow> datetime \<Rightarrow> state \<Rightarrow> Post \<Rightarrow> (HTTPException + pydict) \<times> state" where
  "create_post uuid4 now s post =
     (case dict_get (users_db s) (Post.username post) of
        None \<Rightarrow> (Inl (HTTPException 404 ''User not found''), s)
      | Some entry \<Rightarrow>
          let user_id = entry_id entry;
              post_id = uuid4 (uuid_calls s);
              s1 = s\<lparr>uuid_calls := Suc (uuid_calls s)\<rparr>;
              created_at = now;
              s2 = s1\<lparr>posts_db := dict_set (posts_db s1) post_id
                         \<lparr>entry_content = content post, entry_username = Post.username post,
                          entry_created_at = created_at\<rparr>\<rparr>
          in (Inr (dict_set (Post_dict post) ''created_at'' (PyDateTime created_at)), s2))"

definition get_posts :: "state \<Rightarrow> Post list \<times> state" where
  "get_posts s =
     (map (\<lambda>post. \<lparr>content = entry_content post, Post.username = entry_username post\<rparr>)
        (dict_values (posts_db s)), s)"

section \<open>Routes\<close>

text \<open>
  The decorators. \<^verbatim>\<open>response_model=Post\<close> makes the framework validate what the
  handler returns against \<^verbatim>\<open>Post\<close> and send the fields that \<^verbatim>\<open>Post\<close>
  declares, and no others; a value that does not validate is answered with status 500.
  \<^verbatim>\<open>response_model=UserInDB\<close> and \<^verbatim>\<open>response_model=List[Post]\<close> meet handlers that
  return objects of exactly those models, and \<^verbatim>\<open>/login\<close> declares no model.
\<close>

definition response_model_Post :: "pydict \<Rightarrow> Post option" where
  "response_model_Post d =
     (case (dict_get d ''content'', dict_get d ''username'') of
        (Some (PyStr c), Some (PyStr u)) \<Rightarrow> Some \<lparr>content = c, Post.username = u\<rparr>
      | _ \<Rightarrow> None)"

datatype body = UserInDB_body UserInDB | Dict_body pydict | Posts_body "Post list"

datatype request = Register User | Login User | CreatePost Post | GetPosts

text \<open>
  One request, served with the clock reading \<open>now\<close>: the response sent and the state
  left behind.
\<close>

fun handle :: "(nat \<Rightarrow> string) \<Rightarrow> datetime \<Rightarrow> state \<Rightarrow> request \<Rightarrow> (HTTPException + body) \<times> state" where
  "handle uuid4 now s (Register user) =
     (case register uuid4 s user of
        (Inl e, s') \<Rightarrow> (Inl e, s')
      | (Inr u, s') \<Rightarrow> (Inr (UserInDB_body u), s'))"
| "handle uuid4 now s (Login user) =
     (case login s user of
        (Inl e, s') \<Rightarrow> (Inl e, s')
      | (Inr d, s') \<Rightarrow> (Inr (Dict_body d), s'))"
| "handle uuid4 now s (CreatePost post) =
     (case create_post uuid4 now s post of
        (Inl e, s') \<Rightarrow> (Inl e, s')
      | (Inr d, s') \<Rightarrow>
          (case response_model_Post d of
             Some p \<Rightarrow> (Inr (Dict_body (Post_dict p)), s')
           | None \<Rightarrow> (Inl (HTTPException 500 ''Internal Server Error''), s')))"
| "handle uuid4 now s GetPosts =
     (case get_posts s of (ps, s') \<Rightarrow> (Inr (Posts_body ps), s'))"

text \<open>A sequence of requests, each with its clock reading, served one after another.\<close>

fun run :: "(nat \<Rightarrow> string) \<Rightarrow> state \<Rightarrow> (datetime \<times> request) list \<Rightarrow> state" where
  "run uuid4 s [] = s"
| "run uuid4 s ((now, req) # reqs) = run uuid4 (snd (handle uuid4 now s req)) reqs"

section \<open>Auxiliary definitions\<close>

text \<open>
  What the identifier generator has handed out: every key of \<^verbatim>\<open>posts_db\<close> and every
  \<^verbatim>\<open>"id"\<close> in \<^verbatim>\<open>users_db\<close> is the result of one of the calls counted by
  \<open>uuid_calls\<close>.
\<close>

definition issued :: "(nat \<Rightarrow> string) \<Rightarrow> state \<Rightarrow> bool" where
  "issued uuid4 s =
     (set (dict_keys (posts_db s)) \<union> entry_id ` set (dict_values (users_db s))
        \<subseteq> uuid4 ` {..< uuid_calls s})"

text \<open>Every stored post names a registered user.\<close>

definition posts_ref :: "state \<Rightarrow> bool" where
  "posts_ref s = (\<forall>p \<in> set (dict_values (posts_db s)). dict_in (entry_username p) (users_db s))"

text \<open>A generator that never repeats a value, and a state to evaluate the operations in.\<close>

definition example_uuid4 :: "nat \<Rightarrow> string" where
  "example_uuid4 k = replicate (Suc k) CHR ''u''"

definition alice_registered :: state where
  "alice_registered =
     run example_uuid4 init_state [(0, Register \<lparr>User.username = ''alice'', password = ''pw1''\<rparr>)]"

definition bob_registered :: state where
  "bob_registered =
     run example_uuid4 init_state [(0, Register \<lparr>User.username = ''bob'', password = ''secret''\<rparr>)]"

definition bob_posted :: state where
  "bob_posted =
     run example_uuid4 init_state
       [(0, Register \<lparr>User.username = ''bob'', password = ''secret''\<rparr>),
        (5, CreatePost \<lparr>content = ''hello world'', Post.username = ''bob''\<rparr>)]"

declare handle.simps [simp del]

section \<open>Dictionary lemmas\<close>

lemma dict_in_iff: "dict_in k d \<longleftrightarrow> dict_get d k \<noteq> None"
  by (simp add: dict_in_def dict_keys_def dict_get_def map_of_eq_None_iff)

lemma dict_get_set: "dict_get (dict_set d k v) k' = (if k' = k then Some v else dict_get d k')"
  by (induction d) (auto simp: dict_get_def)

lemma dict_set_new: "\<not> dict_in k d \<Longrightarrow> dict_set d k v = d @ [(k, v)]"
  by (induction d) (auto simp: dict_in_def dict_keys_def)

lemma dict_keys_dict_set:
  "dict_keys (dict_set d k v) = (if dict_in k d then dict_keys d else dict_keys d @ [k])"
  by (induction d) (force simp: dict_keys_def dict_in_def)+

lemma dict_keys_set: "set (dict_keys (dict_set d k v)) = insert k (set (dict_keys d))"
  by (auto simp: dict_keys_dict_set dict_in_def)

lemma dict_in_set: "dict_in k' (dict_set d k v) \<longleftrightarrow> k' = k \<or> dict_in k' d"
  by (auto simp: dict_in_def dict_keys_set)

lemma distinct_dict_set: "distinct (dict_keys d) \<Longrightarrow> distinct (dict_keys (dict_set d k v))"
proof (induction d)
  case Nil
  then show ?case by (simp add: dict_keys_def)
next
  case (Cons p d)
  have "set (dict_keys (dict_set d k v)) = insert k (set (dict_keys d))"
    by (rule dict_keys_set)
  with Cons show ?case
    by (cases p) (auto simp: dict_keys_def)
qed

lemma dict_values_set_subset: "set (dict_values (dict_set d k v)) \<subseteq> insert v (set (dict_values d))"
proof (induction d)
  case Nil
  then show ?case by (simp add: dict_values_def)
next
  case (Cons p d)
  then show ?case
    by (cases p) (auto simp: dict_values_def)
qed

section \<open>Requests and their effect on the state\<close>

lemma run_append: "run uuid4 s (xs @ ys) = run uuid4 (run uuid4 s xs) ys"
  by (induction xs arbitrary: s) auto

lemma response_model_Post_create:
  "response_model_Post (dict_set (Post_dict post) ''created_at'' v) = Some post"
  by (simp add: response_model_Post_def Post_dict_def dict_get_def)

lemma snd_handle:
  "snd (handle uuid4 now s req) =
     (case req of
        Register user \<Rightarrow> snd (register uuid4 s user)
      | Login user \<Rightarrow> snd (login s user)
      | CreatePost post \<Rightarrow> snd (create_post uuid4 now s post)
      | GetPosts \<Rightarrow> snd (get_posts s))"
  by (cases req)
     (auto simp: handle.simps response_model_Post_create register_def login_def create_post_def
        get_posts_def Let_def
        split: prod.splits sum.splits option.splits if_splits)

lemma run_invariant:
  assumes "P s" and "\<And>now s req. P s \<Longrightarrow> P (snd (handle uuid4 now s req))"
  shows "P (run uuid4 s reqs)"
  using assms(1)
proof (induction reqs arbitrary: s)
  case Nil
  then show ?case by simp
next
  case (Cons r reqs)
  then show ?case
    by (cases r) (simp add: assms(2))
qed

lemma snd_register:
  "snd (register uuid4 s user) =
     (if dict_in (User.username user) (users_db s) then s
      else s\<lparr>uuid_calls := Suc (uuid_calls s),
             users_db := dict_set (users_db s) (User.username user)
               \<lparr>entry_id = uuid4 (uuid_calls s), entry_password = password user\<rparr>\<rparr>)"
  by (simp add: register_def Let_def)

lemma snd_login: "snd (login s user) = s"
  by (simp add: login_def split: sum.splits)

lemma snd_create_post:
  "snd (create_post uuid4 now s post) =
     (if dict_in (Post.username post) (users_db s)
      then s\<lparr>uuid_calls := Suc (uuid_calls s),
              posts_db := dict_set (posts_db s) (uuid4 (uuid_calls s))
                \<lparr>entry_content = content post, entry_username = Post.username post,
                 entry_created_at = now\<rparr>\<rparr>
      else s)"
  by (auto simp: create_post_def Let_def dict_in_iff split: option.splits)

lemma snd_get_posts: "snd (get_posts s) = s"
  by (simp add: get_posts_def)

lemmas snd_handlers = snd_handle snd_register snd_login snd_create_post snd_get_posts

section \<open>Identifiers handed out\<close>

text \<open>
  Every identifier in the stores comes from an earlier call of the generator, so the next
  value of a generator that never repeats itself is in neither store.
\<close>

lemma issued_init: "issued uuid4 init_state"
  by (simp add: issued_def init_state_def dict_keys_def dict_values_def)

lemma issued_step_users:
  assumes "issued uuid4 s"
  shows "issued uuid4 (s\<lparr>uuid_calls := Suc (uuid_calls s),
           users_db := dict_set (users_db s) k \<lparr>entry_id = uuid4 (uuid_calls s), entry_password = pw\<rparr>\<rparr>)"
proof -
  let ?v = "\<lparr>entry_id = uuid4 (uuid_calls s), entry_password = pw\<rparr>"
  have "entry_id ` set (dict_values (dict_set (users_db s) k ?v))
          \<subseteq> insert (uuid4 (uuid_calls s)) (entry_id ` set (dict_values (users_db s)))"
    using dict_values_set_subset [of "users_db s" k ?v] by auto
  moreover have "set (dict_keys (posts_db s)) \<union> entry_id ` set (dict_values (users_db s))
          \<subseteq> uuid4 ` {..< uuid_calls s}"
    using assms by (simp add: issued_def)
  ultimately show ?thesis
    unfolding issued_def by (simp add: lessThan_Suc) blast
qed

lemma issued_step_posts:
  assumes "issued uuid4 s"
  shows "issued uuid4 (s\<lparr>uuid_calls := Suc (uuid_calls s),
           posts_db := dict_set (posts_db s) (uuid4 (uuid_calls s)) v\<rparr>)"
proof -
  have "set (dict_keys (posts_db s)) \<union> entry_id ` set (dict_values (users_db s))
          \<subseteq> uuid4 ` {..< uuid_calls s}"
    using assms by (simp add: issued_def)
  then show ?thesis
    unfolding issued_def by (simp add: lessThan_Suc dict_keys_set) blast
qed

lemma issued_handle:
  assumes "issued uuid4 s"
  shows "issued uuid4 (snd (handle uuid4 now s req))"
proof (cases req)
  case (Register user)
  with assms show ?thesis
    by (simp add: snd_handlers issued_step_users)
next
  case (Login user)
  with assms show ?thesis by (simp add: snd_handlers)
next
  case (CreatePost post)
  with assms show ?thesis
    by (simp add: snd_handlers issued_step_posts)
next
  case GetPosts
  with assms show ?thesis by (simp add: snd_handlers)
qed

lemma issued_run: "issued uuid4 (run uuid4 init_state reqs)"
  by (rule run_invariant [where P = "issued uuid4"]) (simp_all add: issued_init issued_handle)

lemma issued_fresh_posts:
  assumes "inj uuid4" and "issued uuid4 s"
  shows "\<not> dict_in (uuid4 (uuid_calls s)) (posts_db s)"
proof
  assume "dict_in (uuid4 (uuid_calls s)) (posts_db s)"
  with assms(2) have "uuid4 (uuid_calls s) \<in> uuid4 ` {..< uuid_calls s}"
    unfolding issued_def dict_in_def by blast
  with assms(1) show False
    by (auto dest: injD)
qed

lemma issued_fresh_users:
  assumes "inj uuid4" and "issued uuid4 s" and "e \<in> set (dict_values (users_db s))"
  shows "entry_id e \<noteq> uuid4 (uuid_calls s)"
proof
  assume "entry_id e = uuid4 (uuid_calls s)"
  with assms(3) have "uuid4 (uuid_calls s) \<in> entry_id ` set (dict_values (users_db s))"
    by (metis imageI)
  with assms(2) have "uuid4 (uuid_calls s) \<in> uuid4 ` {..< uuid_calls s}"
    unfolding issued_def by blast
  with assms(1) show False
    by (auto dest: injD)
qed

section \<open>Posts name registered users\<close>

lemma posts_ref_register:
  assumes "posts_ref s"
  shows "posts_ref (snd (register uuid4 s user))"
  using assms by (simp add: snd_register posts_ref_def dict_in_set)

lemma posts_ref_create_post:
  assumes "posts_ref s"
  shows "posts_ref (snd (create_post uuid4 now s post))"
proof (cases "dict_in (Post.username post) (users_db s)")
  case True
  let ?v = "\<lparr>entry_content = content post, entry_username = Post.username post,
             entry_created_at = now\<rparr>"
  let ?d = "dict_set (posts_db s) (uuid4 (uuid_calls s)) ?v"
  have "dict_in (entry_username p) (users_db s)" if "p \<in> set (dict_values ?d)" for p
  proof -
    from that have "p = ?v \<or> p \<in> set (dict_values (posts_db s))"
      using dict_values_set_subset [of "posts_db s" "uuid4 (uuid_calls s)" ?v] by blast
    then show ?thesis
    proof
      assume "p = ?v"
      with True show ?thesis by simp
    next
      assume "p \<in> set (dict_values (posts_db s))"
      with assms show ?thesis by (simp add: posts_ref_def)
    qed
  qed
  with True show ?thesis
    by (simp add: snd_create_post posts_ref_def)
next
  case False
  with assms show ?thesis
    by (simp add: snd_create_post)
qed

lemma posts_ref_handle:
  assumes "posts_ref s"
  shows "posts_ref (snd (handle uuid4 now s req))"
  using assms
  by (cases req) (simp_all add: snd_handle snd_login snd_get_posts posts_ref_register posts_ref_create_post)

lemma posts_ref_init: "posts_ref init_state"
  by (simp add: posts_ref_def init_state_def dict_values_def)

lemma posts_ref_run: "posts_ref (run uuid4 init_state reqs)"
  by (rule run_invariant [where P = posts_ref]) (simp_all add: posts_ref_init posts_ref_handle)

section \<open>The stores under a request\<close>

text \<open>
  With fresh identifiers \<^verbatim>\<open>posts_db\<close> grows at its end; an entry of \<^verbatim>\<open>users_db\<close>
  stays, and a new one appears at a registration only.
\<close>

lemma posts_db_handle:
  assumes "inj uuid4" and "issued uuid4 s"
  shows "\<exists>new. posts_db (snd (handle uuid4 now s req)) = posts_db s @ new"
proof (cases req)
  case (Register user)
  then show ?thesis by (simp add: snd_handle snd_register)
next
  case (Login user)
  then show ?thesis by (simp add: snd_handle snd_login)
next
  case (CreatePost post)
  have "\<not> dict_in (uuid4 (uuid_calls s)) (posts_db s)"
    using assms by (rule issued_fresh_posts)
  with CreatePost show ?thesis
    by (simp add: snd_handle snd_create_post dict_set_new)
next
  case GetPosts
  then show ?thesis by (simp add: snd_handle snd_get_posts)
qed

lemma posts_db_run:
  assumes "inj uuid4" and "issued uuid4 s"
  shows "\<exists>new. posts_db (run uuid4 s reqs) = posts_db s @ new"
  using assms(2)
proof (induction reqs arbitrary: s)
  case Nil
  then show ?case by simp
next
  case (Cons r reqs)
  obtain now req where r: "r = (now, req)"
    by (cases r)
  let ?s = "snd (handle uuid4 now s req)"
  obtain new1 where n1: "posts_db ?s = posts_db s @ new1"
    using posts_db_handle [OF assms(1) Cons.prems] by blast
  have "issued uuid4 ?s"
    using Cons.prems by (rule issued_handle)
  then obtain new2 where "posts_db (run uuid4 ?s reqs) = posts_db ?s @ new2"
    using Cons.IH by blast
  with n1 r show ?case by simp
qed

lemma dict_get_append:
  "dict_get d k = Some v \<Longrightarrow> dict_get (d @ new) k = Some v"
  by (simp add: dict_get_def map_add_Some_iff)

lemma users_db_handle:
  assumes "dict_get (users_db s) u = Some e"
  shows "dict_get (users_db (snd (handle uuid4 now s req))) u = Some e"
proof (cases req)
  case (Register user)
  show ?thesis
  proof (cases "dict_in (User.username user) (users_db s)")
    case True
    with assms Register show ?thesis by (simp add: snd_handle snd_register)
  next
    case False
    with assms have "u \<noteq> User.username user"
      by (auto simp: dict_in_iff)
    with assms Register False show ?thesis
      by (simp add: snd_handle snd_register dict_get_set)
  qed
next
  case (Login user)
  with assms show ?thesis by (simp add: snd_handle snd_login)
next
  case (CreatePost post)
  with assms show ?thesis by (simp add: snd_handle snd_create_post)
next
  case GetPosts
  with assms show ?thesis by (simp add: snd_handle snd_get_posts)
qed

lemma users_db_distinct_handle:
  assumes "distinct (dict_keys (users_db s))"
  shows "distinct (dict_keys (users_db (snd (handle uuid4 now s req))))"
  using assms
  by (cases req) (simp_all add: snd_handle snd_register snd_login snd_create_post snd_get_posts distinct_dict_set)

lemma users_db_changes:
  assumes "dict_get (users_db (snd (handle uuid4 now s req))) u \<noteq> dict_get (users_db s) u"
  shows "\<exists>user. req = Register user \<and> User.username user = u \<and> \<not> dict_in u (users_db s)"
proof (cases req)
  case (Register user)
  with assms show ?thesis
    by (simp add: snd_handle snd_register dict_get_set split: if_splits)
next
  case (Login user)
  with assms show ?thesis by (simp add: snd_handle snd_login)
next
  case (CreatePost post)
  with assms show ?thesis by (simp add: snd_handle snd_create_post split: if_splits)
next
  case GetPosts
  with assms show ?thesis by (simp add: snd_handle snd_get_posts)
qed

section \<open>Evaluation\<close>

lemmas eval_defs =
  handle.simps register_def login_def authenticate_user_def create_post_def get_posts_def
  response_model_Post_def Post_dict_def init_state_def example_uuid4_def
  dict_in_def dict_keys_def dict_values_def dict_get_def Let_def

lemma inj_example_uuid4: "inj example_uuid4"
  by (rule injI) (auto simp: example_uuid4_def dest: arg_cong [where f = length])

section \<open>Creating a post: what is returned and what is sent\<close>

lemma create_post_returns:
  assumes "dict_in (Post.username post) (users_db s)"
  shows "fst (create_post uuid4 now s post) =
           Inr [(''content'', PyStr (content post)), (''username'', PyStr (Post.username post)),
                (''created_at'', PyDateTime now)]"
  using assms
  by (auto simp: create_post_def Let_def dict_in_iff Post_dict_def split: option.splits)

lemma create_post_response:
  assumes "dict_in (Post.username post) (users_db s)"
  shows "fst (handle uuid4 now s (CreatePost post)) =
           Inr (Dict_body [(''content'', PyStr (content post)), (''username'', PyStr (Post.username post))])"
  using assms
  by (auto simp: handle.simps create_post_def Let_def dict_in_iff response_model_Post_def Post_dict_def
      dict_get_def split: option.splits)

text \<open>
  C1. For a registered username the handler \<^verbatim>\<open>create_post\<close> returns a dictionary with the
  fields content, username and created_at, created_at being the timestamp stored with the
  post. The route declares \<^verbatim>\<open>response_model=Post\<close>, and the response that is sent has the
  fields of \<^verbatim>\<open>Post\<close> only: created_at is not among them. Evaluated after registering
  bob, for the post "hello world" by bob: the first equation is what the handler returns, the
  second is the response.
\<close>

theorem create_post_response_drops_created_at:
  "fst (create_post example_uuid4 1730000000
          (run example_uuid4 init_state
             [(0, Register \<lparr>User.username = ''bob'', password = ''secret''\<rparr>)])
          \<lparr>content = ''hello world'', Post.username = ''bob''\<rparr>)
     = Inr [(''content'', PyStr ''hello world''), (''username'', PyStr ''bob''),
            (''created_at'', PyDateTime 1730000000)]
   \<and> fst (handle example_uuid4 1730000000
          (run example_uuid4 init_state
             [(0, Register \<lparr>User.username = ''bob'', password = ''secret''\<rparr>)])
          (CreatePost \<lparr>content = ''hello world'', Post.username = ''bob''\<rparr>))
     = Inr (Dict_body [(''content'', PyStr ''hello world''), (''username'', PyStr ''bob'')])"
  by (simp add: eval_defs)

section \<open>Login\<close>

lemma alice_registered_eq:
  "alice_registered =
     \<lparr>users_db = [(''alice'', \<lparr>entry_id = ''u'', entry_password = ''pw1''\<rparr>)], posts_db = [],
      uuid_calls = 1\<rparr>"
  by (simp add: alice_registered_def eval_defs)

text \<open>
  C3. Login fails with status 401 exactly when the username is not a key of
  \<^verbatim>\<open>users_db\<close> or the password stored for it differs from the one supplied (strings
  are compared as they are, so case matters); in every other case it returns the message
  \<^verbatim>\<open>Welcome, <username>!\<close>.
\<close>

theorem login_spec:
  "(fst (login s user) = Inl (HTTPException 401 ''Invalid credentials'')) =
     (\<not> dict_in (User.username user) (users_db s) \<or>
      (\<exists>entry. dict_get (users_db s) (User.username user) = Some entry \<and>
               entry_password entry \<noteq> password user))
   \<and> (\<not> (\<not> dict_in (User.username user) (users_db s) \<or>
          (\<exists>entry. dict_get (users_db s) (User.username user) = Some entry \<and>
               entry_password entry \<noteq> password user)) \<longrightarrow>
        fst (login s user) =
          Inr [(''message'', PyStr (''Welcome, '' @ User.username user @ ''!''))])"
  by (auto simp: login_def authenticate_user_def dict_in_iff split: option.splits sum.splits)

text \<open>
  With alice registered under the password pw1: the right password is greeted, the same
  password in capitals and an unknown username are refused.
\<close>

theorem login_spec_witness:
  "fst (login alice_registered \<lparr>User.username = ''alice'', password = ''pw1''\<rparr>)
     = Inr [(''message'', PyStr ''Welcome, alice!'')]
   \<and> fst (login alice_registered \<lparr>User.username = ''alice'', password = ''PW1''\<rparr>)
     = Inl (HTTPException 401 ''Invalid credentials'')
   \<and> fst (login alice_registered \<lparr>User.username = ''bob'', password = ''pw1''\<rparr>)
     = Inl (HTTPException 401 ''Invalid credentials'')"
proof -
  have known: "dict_in ''alice'' (users_db alice_registered)"
    and unknown: "\<not> dict_in ''bob'' (users_db alice_registered)"
    and stored: "dict_get (users_db alice_registered) ''alice''
                   = Some \<lparr>entry_id = ''u'', entry_password = ''pw1''\<rparr>"
    by (simp_all add: alice_registered_eq dict_in_def dict_keys_def dict_get_def)
  have "fst (login alice_registered \<lparr>User.username = ''alice'', password = ''pw1''\<rparr>)
     = Inr [(''message'', PyStr ''Welcome, alice!'')]"
    using login_spec [of alice_registered "\<lparr>User.username = ''alice'', password = ''pw1''\<rparr>"]
      known stored by simp
  moreover have "fst (login alice_registered \<lparr>User.username = ''alice'', password = ''PW1''\<rparr>)
     = Inl (HTTPException 401 ''Invalid credentials'')"
    using login_spec [of alice_registered "\<lparr>User.username = ''alice'', password = ''PW1''\<rparr>"]
      known stored by simp
  moreover have "fst (login alice_registered \<lparr>User.username = ''bob'', password = ''pw1''\<rparr>)
     = Inl (HTTPException 401 ''Invalid credentials'')"
    using login_spec [of alice_registered "\<lparr>User.username = ''bob'', password = ''pw1''\<rparr>"]
      unknown by simp
  ultimately show ?thesis by simp
qed

section \<open>Registration\<close>

lemma bob_registered_eq:
  "bob_registered =
     \<lparr>users_db = [(''bob'', \<lparr>entry_id = ''u'', entry_password = ''secret''\<rparr>)], posts_db = [],
      uuid_calls = 1\<rparr>"
  by (simp add: bob_registered_def eval_defs)

text \<open>
  C2. In a state reached from the empty stores, with an identifier generator that never
  repeats a value: registering a username that is already a key of \<^verbatim>\<open>users_db\<close> raises
  HTTPException 400 and leaves the state as it was; registering a new username draws an
  identifier that no stored user has, returns id, username and password with that identifier,
  and puts the entry (id, password) under the username, after the entries already there;
  \<^verbatim>\<open>posts_db\<close> is untouched.
\<close>

theorem register_spec:
  assumes "inj uuid4" and "s = run uuid4 init_state reqs"
  shows "(dict_in (User.username user) (users_db s) \<longrightarrow>
            register uuid4 s user = (Inl (HTTPException 400 ''Username already exists''), s))
       \<and> (\<not> dict_in (User.username user) (users_db s) \<longrightarrow>
            (\<forall>entry \<in> set (dict_values (users_db s)). entry_id entry \<noteq> uuid4 (uuid_calls s))
          \<and> fst (register uuid4 s user) =
               Inr \<lparr>User.username = User.username user, password = password user,
                    id' = uuid4 (uuid_calls s)\<rparr>
          \<and> users_db (snd (register uuid4 s user)) =
               users_db s @ [(User.username user,
                  \<lparr>entry_id = uuid4 (uuid_calls s), entry_password = password user\<rparr>)]
          \<and> posts_db (snd (register uuid4 s user)) = posts_db s)"
proof (intro conjI impI)
  assume "dict_in (User.username user) (users_db s)"
  then show "register uuid4 s user = (Inl (HTTPException 400 ''Username already exists''), s)"
    by (simp add: register_def)
next
  assume new: "\<not> dict_in (User.username user) (users_db s)"
  have "issued uuid4 s"
    unfolding assms(2) by (rule issued_run)
  then show "\<forall>entry \<in> set (dict_values (users_db s)). entry_id entry \<noteq> uuid4 (uuid_calls s)"
    using issued_fresh_users [OF assms(1)] by blast
  from new show "fst (register uuid4 s user) =
      Inr \<lparr>User.username = User.username user, password = password user, id' = uuid4 (uuid_calls s)\<rparr>"
    by (simp add: register_def Let_def)
  from new show "users_db (snd (register uuid4 s user)) =
      users_db s @ [(User.username user,
         \<lparr>entry_id = uuid4 (uuid_calls s), entry_password = password user\<rparr>)]"
    by (simp add: snd_register dict_set_new)
  from new show "posts_db (snd (register uuid4 s user)) = posts_db s"
    by (simp add: snd_register)
qed

text \<open>
  With bob registered: registering bob again is refused, registering alice succeeds with the
  next identifier and adds her entry after bob's.
\<close>

theorem register_spec_witness:
  "inj example_uuid4
   \<and> bob_registered = run example_uuid4 init_state
        [(0, Register \<lparr>User.username = ''bob'', password = ''secret''\<rparr>)]
   \<and> register example_uuid4 bob_registered \<lparr>User.username = ''bob'', password = ''other''\<rparr>
       = (Inl (HTTPException 400 ''Username already exists''), bob_registered)
   \<and> fst (register example_uuid4 bob_registered \<lparr>User.username = ''alice'', password = ''pw1''\<rparr>)
       = Inr \<lparr>User.username = ''alice'', password = ''pw1'', id' = ''uu''\<rparr>
   \<and> users_db (snd (register example_uuid4 bob_registered
                      \<lparr>User.username = ''alice'', password = ''pw1''\<rparr>))
       = [(''bob'', \<lparr>entry_id = ''u'', entry_password = ''secret''\<rparr>),
          (''alice'', \<lparr>entry_id = ''uu'', entry_password = ''pw1''\<rparr>)]"
proof -
  have known: "dict_in ''bob'' (users_db bob_registered)"
    and unknown: "\<not> dict_in ''alice'' (users_db bob_registered)"
    and calls: "example_uuid4 (uuid_calls bob_registered) = ''uu''"
    and users: "users_db bob_registered = [(''bob'', \<lparr>entry_id = ''u'', entry_password = ''secret''\<rparr>)]"
    by (simp_all add: bob_registered_eq dict_in_def dict_keys_def example_uuid4_def)
  note spec = register_spec [OF inj_example_uuid4 bob_registered_def]
  have "register example_uuid4 bob_registered \<lparr>User.username = ''bob'', password = ''other''\<rparr>
       = (Inl (HTTPException 400 ''Username already exists''), bob_registered)"
    using spec [of "\<lparr>User.username = ''bob'', password = ''other''\<rparr>"] known by simp
  moreover have "fst (register example_uuid4 bob_registered \<lparr>User.username = ''alice'', password = ''pw1''\<rparr>)
       = Inr \<lparr>User.username = ''alice'', password = ''pw1'', id' = ''uu''\<rparr>"
    using spec [of "\<lparr>User.username = ''alice'', password = ''pw1''\<rparr>"] unknown calls by simp
  moreover have "users_db (snd (register example_uuid4 bob_registered
                      \<lparr>User.username = ''alice'', password = ''pw1''\<rparr>))
       = [(''bob'', \<lparr>entry_id = ''u'', entry_password = ''secret''\<rparr>),
          (''alice'', \<lparr>entry_id = ''uu'', entry_password = ''pw1''\<rparr>)]"
    using spec [of "\<lparr>User.username = ''alice'', password = ''pw1''\<rparr>"] unknown calls users by simp
  ultimately show ?thesis
    using inj_example_uuid4 bob_registered_def by simp
qed

section \<open>Creating a post: the stores\<close>

lemma bob_posted_eq:
  "bob_posted =
     \<lparr>users_db = [(''bob'', \<lparr>entry_id = ''u'', entry_password = ''secret''\<rparr>)],
      posts_db = [(''uu'', \<lparr>entry_content = ''hello world'', entry_username = ''bob'',
                          entry_created_at = 5\<rparr>)],
      uuid_calls = 2\<rparr>"
  by (simp add: bob_posted_def snd_handle eval_defs)

text \<open>
  C4. In a state reached from the empty stores, with an identifier generator that never
  repeats a value: a post for a username that is not a key of \<^verbatim>\<open>users_db\<close> raises
  HTTPException 404 and leaves the state as it was; a post for a registered username does not
  raise, its identifier is not yet a key of \<^verbatim>\<open>posts_db\<close>, and the entry (content,
  username, created_at), created_at being the clock reading of the request, is put under that
  identifier after the entries already there; \<^verbatim>\<open>users_db\<close> is untouched.
\<close>

theorem create_post_spec:
  assumes "inj uuid4" and "s = run uuid4 init_state reqs"
  shows "(\<not> dict_in (Post.username post) (users_db s) \<longrightarrow>
            create_post uuid4 now s post = (Inl (HTTPException 404 ''User not found''), s))
       \<and> (dict_in (Post.username post) (users_db s) \<longrightarrow>
            \<not> dict_in (uuid4 (uuid_calls s)) (posts_db s)
          \<and> (\<exists>d. fst (create_post uuid4 now s post) = Inr d)
          \<and> posts_db (snd (create_post uuid4 now s post)) =
               posts_db s @ [(uuid4 (uuid_calls s),
                  \<lparr>entry_content = content post, entry_username = Post.username post,
                   entry_created_at = now\<rparr>)]
          \<and> users_db (snd (create_post uuid4 now s post)) = users_db s)"
proof (intro conjI impI)
  assume "\<not> dict_in (Post.username post) (users_db s)"
  then show "create_post uuid4 now s post = (Inl (HTTPException 404 ''User not found''), s)"
    by (simp add: create_post_def dict_in_iff)
next
  assume known: "dict_in (Post.username post) (users_db s)"
  have "issued uuid4 s"
    unfolding assms(2) by (rule issued_run)
  with assms(1) show fresh: "\<not> dict_in (uuid4 (uuid_calls s)) (posts_db s)"
    by (rule issued_fresh_posts)
  from known show "\<exists>d. fst (create_post uuid4 now s post) = Inr d"
    by (simp add: create_post_returns)
  from known fresh show "posts_db (snd (create_post uuid4 now s post)) =
      posts_db s @ [(uuid4 (uuid_calls s),
         \<lparr>entry_content = content post, entry_username = Post.username post,
          entry_created_at = now\<rparr>)]"
    by (simp add: snd_create_post dict_set_new)
  from known show "users_db (snd (create_post uuid4 now s post)) = users_db s"
    by (simp add: snd_create_post)
qed

text \<open>
  With bob registered and one post stored: a post by carol is refused, a second post by bob
  is stored after the first, with the clock reading 9.
\<close>

theorem create_post_spec_witness:
  "inj example_uuid4
   \<and> create_post example_uuid4 9 bob_posted \<lparr>content = ''hi'', Post.username = ''carol''\<rparr>
       = (Inl (HTTPException 404 ''User not found''), bob_posted)
   \<and> posts_db (snd (create_post example_uuid4 9 bob_posted
                      \<lparr>content = ''second'', Post.username = ''bob''\<rparr>))
       = [(''uu'', \<lparr>entry_content = ''hello world'', entry_username = ''bob'', entry_created_at = 5\<rparr>),
          (''uuu'', \<lparr>entry_content = ''second'', entry_username = ''bob'', entry_created_at = 9\<rparr>)]"
proof -
  have known: "dict_in ''bob'' (users_db bob_posted)"
    and unknown: "\<not> dict_in ''carol'' (users_db bob_posted)"
    and calls: "example_uuid4 (uuid_calls bob_posted) = ''uuu''"
    and posts: "posts_db bob_posted =
       [(''uu'', \<lparr>entry_content = ''hello world'', entry_username = ''bob'', entry_created_at = 5\<rparr>)]"
    by (simp_all add: bob_posted_eq dict_in_def dict_keys_def example_uuid4_def eval_nat_numeral)
  note spec = create_post_spec [OF inj_example_uuid4 bob_posted_def]
  have "create_post example_uuid4 9 bob_posted \<lparr>content = ''hi'', Post.username = ''carol''\<rparr>
       = (Inl (HTTPException 404 ''User not found''), bob_posted)"
    using spec [of "\<lparr>content = ''hi'', Post.username = ''carol''\<rparr>" 9] unknown by simp
  moreover have "posts_db (snd (create_post example_uuid4 9 bob_posted
                      \<lparr>content = ''second'', Post.username = ''bob''\<rparr>))
       = [(''uu'', \<lparr>entry_content = ''hello world'', entry_username = ''bob'', entry_created_at = 5\<rparr>),
          (''uuu'', \<lparr>entry_content = ''second'', entry_username = ''bob'', entry_created_at = 9\<rparr>)]"
    using spec [of "\<lparr>content = ''second'', Post.username = ''bob''\<rparr>" 9] known calls posts by simp
  ultimately show ?thesis
    using inj_example_uuid4 by simp
qed

section \<open>Listing posts\<close>

text \<open>
  C5. \<^verbatim>\<open>get_posts\<close> takes no input and returns, for the values of \<^verbatim>\<open>posts_db\<close> in
  the order of the dictionary, the pair of content and username of each: as many entries as
  posts, none with the creation time, and none at all for the empty dictionary. The order is
  that of insertion: a post stored under a new key is listed last.
\<close>

theorem get_posts_spec:
  "fst (get_posts s) =
     map (\<lambda>entry. \<lparr>content = entry_content entry, Post.username = entry_username entry\<rparr>)
       (dict_values (posts_db s))
   \<and> length (fst (get_posts s)) = length (posts_db s)
   \<and> (posts_db s = [] \<longrightarrow> fst (get_posts s) = [])
   \<and> (dict_in (Post.username post) (users_db s) \<and> \<not> dict_in (uuid4 (uuid_calls s)) (posts_db s) \<longrightarrow>
        fst (get_posts (snd (create_post uuid4 now s post))) =
          fst (get_posts s) @ [\<lparr>content = content post, Post.username = Post.username post\<rparr>])"
  by (simp add: get_posts_def dict_values_def snd_create_post dict_set_new)

text \<open>
  No posts, one post, and a second post listed after the first.
\<close>

theorem get_posts_spec_witness:
  "fst (get_posts init_state) = []
   \<and> fst (get_posts bob_posted) = [\<lparr>content = ''hello world'', Post.username = ''bob''\<rparr>]
   \<and> fst (get_posts (snd (create_post example_uuid4 9 bob_posted
                            \<lparr>content = ''second'', Post.username = ''bob''\<rparr>)))
       = [\<lparr>content = ''hello world'', Post.username = ''bob''\<rparr>,
          \<lparr>content = ''second'', Post.username = ''bob''\<rparr>]"
proof -
  have known: "dict_in ''bob'' (users_db bob_posted)"
    and fresh: "\<not> dict_in (example_uuid4 (uuid_calls bob_posted)) (posts_db bob_posted)"
    and posts: "dict_values (posts_db bob_posted) =
       [\<lparr>entry_content = ''hello world'', entry_username = ''bob'', entry_created_at = 5\<rparr>]"
    and empty: "posts_db init_state = []"
    by (simp_all add: bob_posted_eq init_state_def dict_in_def dict_keys_def dict_values_def
        example_uuid4_def eval_nat_numeral)
  have "fst (get_posts init_state) = []"
    using get_posts_spec [of init_state, THEN conjunct2, THEN conjunct2, THEN conjunct1] empty
    by blast
  moreover have first: "fst (get_posts bob_posted) = [\<lparr>content = ''hello world'', Post.username = ''bob''\<rparr>]"
    using get_posts_spec [of bob_posted, THEN conjunct1] posts by simp
  moreover have "fst (get_posts (snd (create_post example_uuid4 9 bob_posted
                            \<lparr>content = ''second'', Post.username = ''bob''\<rparr>)))
       = [\<lparr>content = ''hello world'', Post.username = ''bob''\<rparr>,
          \<lparr>content = ''second'', Post.username = ''bob''\<rparr>]"
    using get_posts_spec [of bob_posted "\<lparr>content = ''second'', Post.username = ''bob''\<rparr>"
        example_uuid4 9] known fresh first by simp
  ultimately show ?thesis by simp
qed

section \<open>Errors\<close>

lemma register_error:
  "register uuid4 s user = (Inl e, s') \<Longrightarrow> s' = s"
  by (simp add: register_def Let_def split: if_splits)

lemma login_error:
  "login s user = (Inl e, s') \<Longrightarrow> s' = s"
  by (simp add: login_def split: sum.splits)

lemma create_post_error:
  "create_post uuid4 now s post = (Inl e, s') \<Longrightarrow> s' = s"
  by (simp add: create_post_def Let_def split: option.splits)

text \<open>
  C6. A request that is answered with an error leaves \<^verbatim>\<open>users_db\<close> and
  \<^verbatim>\<open>posts_db\<close> as they were, whichever of the four operations it asked for.
\<close>

theorem errors_leave_stores:
  assumes "handle uuid4 now s req = (Inl e, s')"
  shows "users_db s' = users_db s \<and> posts_db s' = posts_db s"
proof -
  have "s' = s"
  proof (cases req)
    case (Register user)
    with assms show ?thesis
      by (auto simp: handle.simps split: prod.splits sum.splits dest: register_error)
  next
    case (Login user)
    with assms show ?thesis
      by (auto simp: handle.simps split: prod.splits sum.splits dest: login_error)
  next
    case (CreatePost post)
    with assms show ?thesis
      by (auto simp: handle.simps create_post_def Let_def response_model_Post_create
          split: option.splits)
  next
    case GetPosts
    with assms show ?thesis
      by (simp add: handle.simps get_posts_def)
  qed
  then show ?thesis by simp
qed

text \<open>
  The three errors the handlers raise, each with the stores unchanged: a username
  registered twice, a wrong password, a post by an unknown user.
\<close>

theorem errors_leave_stores_witness:
  "handle example_uuid4 9 bob_posted (Register \<lparr>User.username = ''bob'', password = ''other''\<rparr>)
     = (Inl (HTTPException 400 ''Username already exists''),
        snd (handle example_uuid4 9 bob_posted (Register \<lparr>User.username = ''bob'', password = ''other''\<rparr>)))
   \<and> users_db (snd (handle example_uuid4 9 bob_posted
                      (Register \<lparr>User.username = ''bob'', password = ''other''\<rparr>)))
       = users_db bob_posted
   \<and> posts_db (snd (handle example_uuid4 9 bob_posted
                      (Register \<lparr>User.username = ''bob'', password = ''other''\<rparr>)))
       = posts_db bob_posted
   \<and> handle example_uuid4 9 bob_posted (Login \<lparr>User.username = ''bob'', password = ''wrong''\<rparr>)
     = (Inl (HTTPException 401 ''Invalid credentials''),
        snd (handle example_uuid4 9 bob_posted (Login \<lparr>User.username = ''bob'', password = ''wrong''\<rparr>)))
   \<and> posts_db (snd (handle example_uuid4 9 bob_posted
                      (Login \<lparr>User.username = ''bob'', password = ''wrong''\<rparr>)))
       = posts_db bob_posted
   \<and> handle example_uuid4 9 bob_posted (CreatePost \<lparr>content = ''hi'', Post.username = ''carol''\<rparr>)
     = (Inl (HTTPException 404 ''User not found''),
        snd (handle example_uuid4 9 bob_posted (CreatePost \<lparr>content = ''hi'', Post.username = ''carol''\<rparr>)))
   \<and> posts_db (snd (handle example_uuid4 9 bob_posted
                      (CreatePost \<lparr>content = ''hi'', Post.username = ''carol''\<rparr>)))
       = posts_db bob_posted"
proof -
  have r: "handle example_uuid4 9 bob_posted (Register \<lparr>User.username = ''bob'', password = ''other''\<rparr>)
     = (Inl (HTTPException 400 ''Username already exists''),
        snd (handle example_uuid4 9 bob_posted (Register \<lparr>User.username = ''bob'', password = ''other''\<rparr>)))"
    by (simp add: bob_posted_eq eval_defs)
  have l: "handle example_uuid4 9 bob_posted (Login \<lparr>User.username = ''bob'', password = ''wrong''\<rparr>)
     = (Inl (HTTPException 401 ''Invalid credentials''),
        snd (handle example_uuid4 9 bob_posted (Login \<lparr>User.username = ''bob'', password = ''wrong''\<rparr>)))"
    by (simp add: bob_posted_eq eval_defs)
  have c: "handle example_uuid4 9 bob_posted (CreatePost \<lparr>content = ''hi'', Post.username = ''carol''\<rparr>)
     = (Inl (HTTPException 404 ''User not found''),
        snd (handle example_uuid4 9 bob_posted (CreatePost \<lparr>content = ''hi'', Post.username = ''carol''\<rparr>)))"
    by (simp add: bob_posted_eq eval_defs)
  show ?thesis
    using r l c errors_leave_stores [OF r] errors_leave_stores [OF l] errors_leave_stores [OF c]
    by blast
qed

section \<open>Registering, then logging in\<close>

text \<open>
  C9. From any state where alice is not a key of \<^verbatim>\<open>users_db\<close>, registering alice with
  the password pw1 succeeds; after it, logging in as alice with pw1 is greeted, and with the
  password wrong it raises HTTPException 401.
\<close>

theorem register_login_roundtrip:
  assumes "\<not> dict_in ''alice'' (users_db s)"
  shows "(\<exists>u. fst (register uuid4 s \<lparr>User.username = ''alice'', password = ''pw1''\<rparr>) = Inr u)
       \<and> fst (login (snd (register uuid4 s \<lparr>User.username = ''alice'', password = ''pw1''\<rparr>))
                \<lparr>User.username = ''alice'', password = ''pw1''\<rparr>)
           = Inr [(''message'', PyStr ''Welcome, alice!'')]
       \<and> fst (login (snd (register uuid4 s \<lparr>User.username = ''alice'', password = ''pw1''\<rparr>))
                \<lparr>User.username = ''alice'', password = ''wrong''\<rparr>)
           = Inl (HTTPException 401 ''Invalid credentials'')"
  using assms
  by (simp add: register_def Let_def login_def authenticate_user_def dict_get_set)

text \<open>
  Starting with bob registered and one post stored.
\<close>

theorem register_login_roundtrip_witness:
  "\<not> dict_in ''alice'' (users_db bob_posted)
   \<and> fst (register example_uuid4 bob_posted \<lparr>User.username = ''alice'', password = ''pw1''\<rparr>)
       = Inr \<lparr>User.username = ''alice'', password = ''pw1'', id' = ''uuu''\<rparr>
   \<and> fst (login (snd (register example_uuid4 bob_posted \<lparr>User.username = ''alice'', password = ''pw1''\<rparr>))
            \<lparr>User.username = ''alice'', password = ''pw1''\<rparr>)
       = Inr [(''message'', PyStr ''Welcome, alice!'')]
   \<and> fst (login (snd (register example_uuid4 bob_posted \<lparr>User.username = ''alice'', password = ''pw1''\<rparr>))
            \<lparr>User.username = ''alice'', password = ''wrong''\<rparr>)
       = Inl (HTTPException 401 ''Invalid credentials'')"
proof -
  have unknown: "\<not> dict_in ''alice'' (users_db bob_posted)"
    by (simp add: bob_posted_eq dict_in_def dict_keys_def)
  moreover have "fst (register example_uuid4 bob_posted \<lparr>User.username = ''alice'', password = ''pw1''\<rparr>)
       = Inr \<lparr>User.username = ''alice'', password = ''pw1'', id' = ''uuu''\<rparr>"
    by (simp add: bob_posted_eq eval_defs eval_nat_numeral)
  ultimately show ?thesis
    using register_login_roundtrip [OF unknown, of example_uuid4] by simp
qed

section \<open>Operations that only read\<close>

text \<open>
  C10. Login, whether it succeeds or raises, and the listing of posts leave the whole
  state, hence \<^verbatim>\<open>users_db\<close> and \<^verbatim>\<open>posts_db\<close>, as it was; so do the two routes.
\<close>

theorem login_get_posts_read_only:
  "snd (login s user) = s \<and> snd (get_posts s) = s
   \<and> snd (handle uuid4 now s (Login user)) = s \<and> snd (handle uuid4 now s GetPosts) = s"
  by (simp add: snd_handle snd_login snd_get_posts)

section \<open>Invariants of the stores\<close>

lemma users_db_run:
  assumes "dict_get (users_db s) u = Some entry"
  shows "dict_get (users_db (run uuid4 s reqs)) u = Some entry"
  by (rule run_invariant [where P = "\<lambda>s. dict_get (users_db s) u = Some entry"])
     (simp_all add: assms users_db_handle)

lemma users_db_distinct_run:
  "distinct (dict_keys (users_db (run uuid4 init_state reqs)))"
  by (rule run_invariant [where P = "\<lambda>s. distinct (dict_keys (users_db s))"])
     (simp_all add: users_db_distinct_handle, simp add: init_state_def dict_keys_def)

text \<open>
  C7. The keys of \<^verbatim>\<open>users_db\<close> are pairwise distinct in every state reached from the
  empty stores; an entry that is stored under a username is still stored, with the same id
  and password, after any sequence of requests; and a request changes what is stored under
  a username only if nothing was stored under it and the request registers that username,
  with the generated id and the password of the request.
\<close>

theorem users_db_invariant:
  "distinct (dict_keys (users_db (run uuid4 init_state reqs)))
   \<and> (dict_get (users_db s) u = Some entry \<longrightarrow>
        dict_get (users_db (run uuid4 s reqs)) u = Some entry)
   \<and> (dict_get (users_db (snd (handle uuid4 now s req))) u \<noteq> dict_get (users_db s) u \<longrightarrow>
        dict_get (users_db s) u = None
      \<and> (\<exists>user. req = Register user \<and> User.username user = u
            \<and> dict_get (users_db (snd (handle uuid4 now s req))) u =
                Some \<lparr>entry_id = uuid4 (uuid_calls s), entry_password = password user\<rparr>))"
proof (intro conjI impI)
  show "distinct (dict_keys (users_db (run uuid4 init_state reqs)))"
    by (rule users_db_distinct_run)
next
  assume "dict_get (users_db s) u = Some entry"
  then show "dict_get (users_db (run uuid4 s reqs)) u = Some entry"
    by (rule users_db_run)
next
  assume changed: "dict_get (users_db (snd (handle uuid4 now s req))) u \<noteq> dict_get (users_db s) u"
  then obtain user where req: "req = Register user" and u: "User.username user = u"
    and new: "\<not> dict_in u (users_db s)"
    using users_db_changes by blast
  from new show "dict_get (users_db s) u = None"
    by (simp add: dict_in_iff)
  from u new have "dict_get (users_db (snd (handle uuid4 now s (Register user)))) u =
      Some \<lparr>entry_id = uuid4 (uuid_calls s), entry_password = password user\<rparr>"
    by (simp add: snd_handle snd_register dict_get_set)
  with req u show "\<exists>user. req = Register user \<and> User.username user = u
      \<and> dict_get (users_db (snd (handle uuid4 now s req))) u =
          Some \<lparr>entry_id = uuid4 (uuid_calls s), entry_password = password user\<rparr>"
    by blast
qed

text \<open>
  Bob's entry survives a second registration of bob, a login, a post, the registration of
  alice and a listing; registering alice is a request that changes what is stored under
  alice.
\<close>

theorem users_db_invariant_witness:
  "dict_get (users_db bob_posted) ''bob'' = Some \<lparr>entry_id = ''u'', entry_password = ''secret''\<rparr>
   \<and> dict_get (users_db (run example_uuid4 bob_posted
        [(6, Register \<lparr>User.username = ''bob'', password = ''other''\<rparr>),
         (7, Login \<lparr>User.username = ''bob'', password = ''other''\<rparr>),
         (8, CreatePost \<lparr>content = ''second'', Post.username = ''bob''\<rparr>),
         (9, Register \<lparr>User.username = ''alice'', password = ''pw1''\<rparr>),
         (10, GetPosts)])) ''bob''
       = Some \<lparr>entry_id = ''u'', entry_password = ''secret''\<rparr>
   \<and> dict_get (users_db (snd (handle example_uuid4 9 bob_posted
          (Register \<lparr>User.username = ''alice'', password = ''pw1''\<rparr>)))) ''alice''
       \<noteq> dict_get (users_db bob_posted) ''alice''
   \<and> dict_get (users_db bob_posted) ''alice'' = None
   \<and> distinct (dict_keys (users_db bob_posted))"
proof -
  have stored: "dict_get (users_db bob_posted) ''bob'' = Some \<lparr>entry_id = ''u'', entry_password = ''secret''\<rparr>"
    by (simp add: bob_posted_eq dict_get_def)
  have changed: "dict_get (users_db (snd (handle example_uuid4 9 bob_posted
          (Register \<lparr>User.username = ''alice'', password = ''pw1''\<rparr>)))) ''alice''
       \<noteq> dict_get (users_db bob_posted) ''alice''"
    by (simp add: bob_posted_eq eval_defs)
  note inv = users_db_invariant [of example_uuid4 _ bob_posted]
  have "dict_get (users_db (run example_uuid4 bob_posted
        [(6, Register \<lparr>User.username = ''bob'', password = ''other''\<rparr>),
         (7, Login \<lparr>User.username = ''bob'', password = ''other''\<rparr>),
         (8, CreatePost \<lparr>content = ''second'', Post.username = ''bob''\<rparr>),
         (9, Register \<lparr>User.username = ''alice'', password = ''pw1''\<rparr>),
         (10, GetPosts)])) ''bob''
       = Some \<lparr>entry_id = ''u'', entry_password = ''secret''\<rparr>"
    using inv [THEN conjunct2, THEN conjunct1] stored by blast
  moreover have "dict_get (users_db bob_posted) ''alice'' = None"
    using inv [THEN conjunct2, THEN conjunct2] changed by blast
  moreover have "distinct (dict_keys (users_db bob_posted))"
    unfolding bob_posted_def using inv [THEN conjunct1] by blast
  ultimately show ?thesis
    using stored changed by blast
qed

text \<open>
  C8. In every state reached from the empty stores, with an identifier generator that never
  repeats a value: the username of every stored post is a key of \<^verbatim>\<open>users_db\<close>; and
  whatever requests follow, \<^verbatim>\<open>posts_db\<close> only grows at its end, so that every post is
  still stored under its identifier, unchanged.
\<close>

theorem posts_db_invariant:
  assumes "inj uuid4" and "s = run uuid4 init_state reqs"
  shows "(\<forall>post \<in> set (dict_values (posts_db s)). dict_in (entry_username post) (users_db s))
       \<and> (\<exists>new. posts_db (run uuid4 s reqs') = posts_db s @ new)
       \<and> (\<forall>post_id post. dict_get (posts_db s) post_id = Some post \<longrightarrow>
             dict_get (posts_db (run uuid4 s reqs')) post_id = Some post)"
proof (intro conjI)
  have "posts_ref s"
    unfolding assms(2) by (rule posts_ref_run)
  then show "\<forall>post \<in> set (dict_values (posts_db s)). dict_in (entry_username post) (users_db s)"
    by (simp add: posts_ref_def)
next
  have "issued uuid4 s"
    unfolding assms(2) by (rule issued_run)
  with assms(1) show ext: "\<exists>new. posts_db (run uuid4 s reqs') = posts_db s @ new"
    by (rule posts_db_run)
  then obtain new where "posts_db (run uuid4 s reqs') = posts_db s @ new" ..
  then show "\<forall>post_id post. dict_get (posts_db s) post_id = Some post \<longrightarrow>
      dict_get (posts_db (run uuid4 s reqs')) post_id = Some post"
    by (simp add: dict_get_append)
qed

text \<open>
  The first post of bob, before and after two more posts and a registration.
\<close>

theorem posts_db_invariant_witness:
  "inj example_uuid4
   \<and> dict_get (posts_db bob_posted) ''uu''
       = Some \<lparr>entry_content = ''hello world'', entry_username = ''bob'', entry_created_at = 5\<rparr>
   \<and> dict_in ''bob'' (users_db bob_posted)
   \<and> dict_get (posts_db (run example_uuid4 bob_posted
        [(8, CreatePost \<lparr>content = ''second'', Post.username = ''bob''\<rparr>),
         (9, Register \<lparr>User.username = ''alice'', password = ''pw1''\<rparr>),
         (10, CreatePost \<lparr>content = ''third'', Post.username = ''alice''\<rparr>)])) ''uu''
       = Some \<lparr>entry_content = ''hello world'', entry_username = ''bob'', entry_created_at = 5\<rparr>"
proof -
  have stored: "dict_get (posts_db bob_posted) ''uu''
       = Some \<lparr>entry_content = ''hello world'', entry_username = ''bob'', entry_created_at = 5\<rparr>"
    and member: "\<lparr>entry_content = ''hello world'', entry_username = ''bob'', entry_created_at = 5\<rparr>
       \<in> set (dict_values (posts_db bob_posted))"
    by (simp_all add: bob_posted_eq dict_get_def dict_values_def)
  note inv = posts_db_invariant [OF inj_example_uuid4 bob_posted_def]
  have "dict_in ''bob'' (users_db bob_posted)"
    using inv [THEN conjunct1] member by fastforce
  moreover have "dict_get (posts_db (run example_uuid4 bob_posted
        [(8, CreatePost \<lparr>content = ''second'', Post.username = ''bob''\<rparr>),
         (9, Register \<lparr>User.username = ''alice'', password = ''pw1''\<rparr>),
         (10, CreatePost \<lparr>content = ''third'', Post.username = ''alice''\<rparr>)])) ''uu''
       = Some \<lparr>entry_content = ''hello world'', entry_username = ''bob'', entry_created_at = 5\<rparr>"
    using inv [THEN conjunct2, THEN conjunct2] stored by blast
  ultimately show ?thesis
    using inj_example_uuid4 stored by blast
qed

end
